theory Spec2Isabelle
  imports Main
begin

section \<open>JSON values as Python sees them\<close>

text \<open>
  The handlers of \<^verbatim>\<open>backend/app.py\<close> work on whatever \<^verbatim>\<open>request.get_json()\<close>
  returns: \<^verbatim>\<open>None\<close> (the body \<^verbatim>\<open>null\<close>), a bool, a number, a string, a list or a
  dict. A parsed dict has one value per key; it is represented by the list of its items
  and read with \<open>map_of\<close>. Numbers are Python's unbounded integers (a float body is
  outside this model).
\<close>

datatype json =
    JNull
  | JBool bool
  | JInt int
  | JStr string
  | JArr "json list"
  | JObj "(string \<times> json) list"

text \<open>Python's truth value of an object, as \<^verbatim>\<open>not data\<close> and \<^verbatim>\<open>not task['completed']\<close> test it.\<close>

fun truthy :: "json \<Rightarrow> bool" where
  "truthy JNull = False"
| "truthy (JBool b) = b"
| "truthy (JInt n) = (n \<noteq> 0)"
| "truthy (JStr s) = (s \<noteq> [])"
| "truthy (JArr xs) = (xs \<noteq> [])"
| "truthy (JObj kvs) = (kvs \<noteq> [])"

text \<open>\<^verbatim>\<open>d.get(k, default)\<close> on a dict.\<close>

definition dict_get :: "(string \<times> json) list \<Rightarrow> string \<Rightarrow> json \<Rightarrow> json" where
  "dict_get kvs k dflt = (case map_of kvs k of None \<Rightarrow> dflt | Some v \<Rightarrow> v)"

text \<open>\<^verbatim>\<open>p in s\<close> on two Python strings: \<open>p\<close> occurs in \<open>s\<close> as a substring.\<close>

fun contains :: "string \<Rightarrow> string \<Rightarrow> bool" where
  "contains p [] = (p = [])"
| "contains p (c # cs) = (take (length p) (c # cs) = p \<or> contains p cs)"

section \<open>The task store\<close>

text \<open>
  A task is a dict with exactly the keys \<^verbatim>\<open>id\<close>, \<^verbatim>\<open>title\<close>, \<^verbatim>\<open>description\<close>,
  \<^verbatim>\<open>completed\<close> and \<^verbatim>\<open>created_at\<close>. The id is always the integer taken from
  \<^verbatim>\<open>task_counter\<close> and the timestamp the string of \<^verbatim>\<open>isoformat()\<close>; the other three
  hold whatever JSON value the payload supplied.
\<close>

record task =
  task_id :: int
  title :: json
  description :: json
  completed :: json
  created_at :: string

text \<open>The module's globals \<^verbatim>\<open>tasks\<close> and \<^verbatim>\<open>task_counter\<close>.\<close>

record state =
  tasks :: "task list"
  task_counter :: int

text \<open>The state after the module is loaded: the three sample tasks, counter at 4.\<close>

definition init_state :: state where
  "init_state =
     \<lparr>tasks =
        [\<lparr>task_id = 1, title = JStr ''Learn Flask'',
          description = JStr ''Build a REST API with Flask'',
          completed = JBool False, created_at = ''2024-01-01T10:00:00''\<rparr>,
         \<lparr>task_id = 2, title = JStr ''Learn React'',
          description = JStr ''Create a frontend with React'',
          completed = JBool False, created_at = ''2024-01-01T11:00:00''\<rparr>,
         \<lparr>task_id = 3, title = JStr ''Setup CI/CD'',
          description = JStr ''Configure GitHub Actions'',
          completed = JBool True, created_at = ''2024-01-01T12:00:00''\<rparr>],
      task_counter = 4\<rparr>"

text \<open>
  What \<^verbatim>\<open>jsonify\<close> is given: a task, \<^verbatim>\<open>{"error": msg}\<close>, \<^verbatim>\<open>{"message": msg}\<close>,
  \<^verbatim>\<open>{"tasks": ts, "total": n}\<close> or \<^verbatim>\<open>{"status": st, "timestamp": ts}\<close>. A response
  is the HTTP status with that body.
\<close>

datatype body =
    Task task
  | Error string
  | Message string
  | TaskList "task list" nat
  | Health string string

type_synonym response = "nat \<times> body"

text \<open>
  \<^verbatim>\<open>next((t for t in tasks if t['id'] == task_id), None)\<close>: the first task with that id.
  The \<^verbatim>\<open><int:task_id>\<close> converter of the routes passes a Python integer, never a
  negative one; the handlers themselves do not look at the sign.
\<close>

definition find_task :: "task list \<Rightarrow> int \<Rightarrow> task option" where
  "find_task ts i = find (\<lambda>t. task_id t = i) ts"

text \<open>
  The dict that \<open>find_task\<close> returns is the object in the list, and the handlers assign
  to its keys: the first task with the id is changed where it stands, no other.
\<close>

fun mutate_first :: "int \<Rightarrow> (task \<Rightarrow> task) \<Rightarrow> task list \<Rightarrow> task list" where
  "mutate_first i f [] = []"
| "mutate_first i f (t # ts) =
     (if task_id t = i then f t # ts else t # mutate_first i f ts)"

text \<open>An exception that leaves a handler is answered by the handler registered for 500.\<close>

definition internal_error :: response where
  "internal_error = (500, Error ''Internal server error'')"

definition health_check :: "string \<Rightarrow> response" where
  "health_check now = (200, Health ''healthy'' now)"

definition get_tasks :: "state \<Rightarrow> response" where
  "get_tasks s = (200, TaskList (tasks s) (length (tasks s)))"

text \<open>A task dict is never empty, so \<^verbatim>\<open>if task:\<close> asks only whether one was found.\<close>

definition get_task :: "state \<Rightarrow> int \<Rightarrow> response" where
  "get_task s i =
     (case find_task (tasks s) i of
        Some t \<Rightarrow> (200, Task t)
      | None \<Rightarrow> (404, Error ''Task not found''))"

text \<open>
  \<open>create_task\<close>, with \<open>now\<close> the string \<^verbatim>\<open>datetime.now().isoformat()\<close> gives and \<open>data\<close>
  the value of \<^verbatim>\<open>request.get_json()\<close>. \<^verbatim>\<open>'title' not in data\<close> is key membership
  on a dict, element membership on a list, a substring test on a string and a TypeError
  on a bool or a number; \<^verbatim>\<open>data['title']\<close> is a TypeError on a list or a string.
\<close>

definition create_task :: "state \<Rightarrow> string \<Rightarrow> json \<Rightarrow> response \<times> state" where
  "create_task s now data =
     (if \<not> truthy data then ((400, Error ''Title is required''), s)
      else case data of
        JObj kvs \<Rightarrow>
          (case map_of kvs ''title'' of
             None \<Rightarrow> ((400, Error ''Title is required''), s)
           | Some ti \<Rightarrow>
               let new_task =
                 \<lparr>task_id = task_counter s, title = ti,
                  description = dict_get kvs ''description'' (JStr ''''),
                  completed = dict_get kvs ''completed'' (JBool False),
                  created_at = now\<rparr>
               in ((201, Task new_task),
                   s\<lparr>tasks := tasks s @ [new_task], task_counter := task_counter s + 1\<rparr>))
      | JArr xs \<Rightarrow>
          if JStr ''title'' \<in> set xs then (internal_error, s)
          else ((400, Error ''Title is required''), s)
      | JStr str \<Rightarrow>
          if contains ''title'' str then (internal_error, s)
          else ((400, Error ''Title is required''), s)
      | _ \<Rightarrow> (internal_error, s))"

text \<open>The three assignments of \<open>update_task\<close> to the found task.\<close>

definition apply_update :: "(string \<times> json) list \<Rightarrow> task \<Rightarrow> task" where
  "apply_update kvs t =
     t\<lparr>title := dict_get kvs ''title'' (title t),
       description := dict_get kvs ''description'' (description t),
       completed := dict_get kvs ''completed'' (completed t)\<rparr>"

text \<open>
  \<open>update_task\<close>: the lookup comes first, then the body. A truthy body that is not a dict
  has no \<^verbatim>\<open>get\<close>: the AttributeError is raised before anything is assigned.
\<close>

definition update_task :: "state \<Rightarrow> int \<Rightarrow> json \<Rightarrow> response \<times> state" where
  "update_task s i data =
     (case find_task (tasks s) i of
        None \<Rightarrow> ((404, Error ''Task not found''), s)
      | Some t \<Rightarrow>
          if \<not> truthy data then ((400, Error ''No data provided''), s)
          else (case data of
            JObj kvs \<Rightarrow>
              ((200, Task (apply_update kvs t)),
               s\<lparr>tasks := mutate_first i (apply_update kvs) (tasks s)\<rparr>)
          | _ \<Rightarrow> (internal_error, s)))"

definition delete_task :: "state \<Rightarrow> int \<Rightarrow> response \<times> state" where
  "delete_task s i =
     (case find_task (tasks s) i of
        None \<Rightarrow> ((404, Error ''Task not found''), s)
      | Some t \<Rightarrow>
          ((200, Message ''Task deleted successfully''),
           s\<lparr>tasks := filter (\<lambda>t. task_id t \<noteq> i) (tasks s)\<rparr>))"

text \<open>\<^verbatim>\<open>task['completed'] = not task['completed']\<close>: the result of \<^verbatim>\<open>not\<close> is a bool.\<close>

definition toggle :: "task \<Rightarrow> task" where
  "toggle t = t\<lparr>completed := JBool (\<not> truthy (completed t))\<rparr>"

definition toggle_task :: "state \<Rightarrow> int \<Rightarrow> response \<times> state" where
  "toggle_task s i =
     (case find_task (tasks s) i of
        None \<Rightarrow> ((404, Error ''Task not found''), s)
      | Some t \<Rightarrow>
          ((200, Task (toggle t)), s\<lparr>tasks := mutate_first i toggle (tasks s)\<rparr>))"

section \<open>Requests and runs\<close>

text \<open>One constructor per route; \<open>Create\<close> carries the clock reading with the body.\<close>

datatype request =
    HealthCheck string
  | GetTasks
  | GetTask int
  | Create string json
  | Update int json
  | Delete int
  | Toggle int

fun handle :: "state \<Rightarrow> request \<Rightarrow> response \<times> state" where
  "handle s (HealthCheck now) = (health_check now, s)"
| "handle s GetTasks = (get_tasks s, s)"
| "handle s (GetTask i) = (get_task s i, s)"
| "handle s (Create now data) = create_task s now data"
| "handle s (Update i data) = update_task s i data"
| "handle s (Delete i) = delete_task s i"
| "handle s (Toggle i) = toggle_task s i"

text \<open>The state after a sequence of requests, handled one after the other.\<close>

fun run :: "state \<Rightarrow> request list \<Rightarrow> state" where
  "run s [] = s"
| "run s (r # rs) = run (snd (handle s r)) rs"

text \<open>The ids that the 201 responses of a sequence of requests carry, in order.\<close>

fun created_id :: "response \<Rightarrow> int list" where
  "created_id (code, Task t) = (if code = 201 then [task_id t] else [])"
| "created_id (code, _) = []"

fun created_ids :: "state \<Rightarrow> request list \<Rightarrow> int list" where
  "created_ids s [] = []"
| "created_ids s (r # rs) =
     created_id (fst (handle s r)) @ created_ids (snd (handle s r)) rs"

text \<open>
  The states the service can be in: the one it starts with, and every state that a
  request leaves behind.
\<close>

inductive reachable :: "state \<Rightarrow> bool" where
  start: "reachable init_state"
| step: "reachable s \<Longrightarrow> reachable (snd (handle s r))"

code_pred reachable .

text \<open>
  What the counter maintains: the ids in the collection are pairwise different and each
  of them lies below \<^verbatim>\<open>task_counter\<close>, the next id to hand out.
\<close>

definition store_inv :: "state \<Rightarrow> bool" where
  "store_inv s \<longleftrightarrow>
     distinct (map task_id (tasks s)) \<and> list_all (\<lambda>t. task_id t < task_counter s) (tasks s)"

text \<open>
  A state used below: the sample tasks and a fourth task posted with the body
  \<^verbatim>\<open>{"title": "Call", "completed": "yes"}\<close>.
\<close>

definition posted_yes :: state where
  "posted_yes =
     snd (create_task init_state ''2024-01-02T09:00:00''
            (JObj [(''title'', JStr ''Call''), (''completed'', JStr ''yes'')]))"

section \<open>Lookup and in-place change\<close>

lemma find_task_None: "find_task ts i = None \<longleftrightarrow> i \<notin> task_id ` set ts"
  by (auto simp: find_task_def find_None_iff)

lemma find_task_Some_id: "find_task ts i = Some t \<Longrightarrow> task_id t = i \<and> t \<in> set ts"
  by (auto simp: find_task_def find_Some_iff)

lemma find_task_append:
  "find_task (ts @ us) i = (case find_task ts i of None \<Rightarrow> find_task us i | Some t \<Rightarrow> Some t)"
  by (induction ts) (simp_all add: find_task_def)

lemma find_task_fresh:
  assumes "list_all (\<lambda>t. task_id t < c) ts"
  shows "find_task ts c = None"
  using assms by (induction ts) (simp_all add: find_task_def)

lemma task_id_apply_update: "task_id (apply_update kvs u) = task_id u"
  by (simp add: apply_update_def)

lemma task_id_toggle: "task_id (toggle u) = task_id u"
  by (simp add: toggle_def)

lemma toggle_toggle: "toggle (toggle t) = t\<lparr>completed := JBool (truthy (completed t))\<rparr>"
  by (simp add: toggle_def)

text \<open>A change that keeps the id keeps the ids of the list, and the lookup sees the change.\<close>

lemma mutate_first_ids:
  assumes "\<And>u. task_id (f u) = task_id u"
  shows "map task_id (mutate_first i f ts) = map task_id ts"
  using assms by (induction ts) auto

lemma find_task_mutate_first:
  assumes "\<And>u. task_id (f u) = task_id u"
  shows "find_task (mutate_first i f ts) i = map_option f (find_task ts i)"
  using assms by (induction ts) (auto simp: find_task_def)

lemma mutate_first_twice:
  assumes "\<And>u. task_id (f u) = task_id u"
  shows "mutate_first i g (mutate_first i f ts) = mutate_first i (\<lambda>u. g (f u)) ts"
  using assms by (induction ts) auto

lemma mutate_first_fixed:
  assumes "find_task ts i = Some t" and "f t = t"
  shows "mutate_first i f ts = ts"
  using assms by (induction ts) (auto simp: find_task_def split: if_splits)

text \<open>The change happens at one position of the list: the one of the task found.\<close>

lemma mutate_first_list_update:
  "find_task ts i = Some t \<Longrightarrow>
     \<exists>k<length ts. ts ! k = t \<and> mutate_first i f ts = ts[k := f t]"
proof (induction ts)
  case Nil
  then show ?case by (simp add: find_task_def)
next
  case (Cons u us)
  show ?case
  proof (cases "task_id u = i")
    case True
    with Cons.prems have "u = t" by (simp add: find_task_def)
    with True show ?thesis by (intro exI[of _ 0]) simp
  next
    case False
    with Cons.prems have "find_task us i = Some t" by (simp add: find_task_def)
    from Cons.IH[OF this] obtain k where "k < length us" "us ! k = t"
      "mutate_first i f us = us[k := f t]" by blast
    with False show ?thesis by (intro exI[of _ "Suc k"]) simp
  qed
qed

text \<open>With pairwise different ids, the comprehension of \<open>delete_task\<close> drops one task.\<close>

lemma filter_other_ids:
  assumes "distinct (map task_id ts)" and "find_task ts i = Some t"
  shows "filter (\<lambda>u. task_id u \<noteq> i) ts = remove1 t ts"
  using assms
proof (induction ts)
  case Nil
  then show ?case by (simp add: find_task_def)
next
  case (Cons u us)
  show ?case
  proof (cases "task_id u = i")
    case True
    with Cons.prems have "u = t" and "i \<notin> task_id ` set us"
      by (auto simp: find_task_def)
    then have "filter (\<lambda>u. task_id u \<noteq> i) us = us"
      by (auto simp: filter_id_conv)
    with True \<open>u = t\<close> show ?thesis by simp
  next
    case False
    with Cons.prems have "find_task us i = Some t" and "distinct (map task_id us)"
      by (simp_all add: find_task_def)
    with Cons.IH have "filter (\<lambda>u. task_id u \<noteq> i) us = remove1 t us" by simp
    moreover from \<open>find_task us i = Some t\<close> have "task_id t = i"
      by (simp add: find_task_Some_id)
    with False have "u \<noteq> t" by auto
    ultimately show ?thesis using False by simp
  qed
qed

section \<open>The invariant of the store\<close>

lemma store_inv_init: "store_inv init_state"
  by (simp add: store_inv_def init_state_def)

lemma store_inv_ids:
  "store_inv s \<longleftrightarrow>
     distinct (map task_id (tasks s))
     \<and> list_all (\<lambda>j. j < task_counter s) (map task_id (tasks s))"
  by (simp add: store_inv_def list.pred_map comp_def)

lemma store_inv_same_ids:
  assumes "store_inv s" and "map task_id ts = map task_id (tasks s)"
  shows "store_inv (s\<lparr>tasks := ts\<rparr>)"
  using assms by (simp add: store_inv_ids)

lemma store_inv_handle: "store_inv s \<Longrightarrow> store_inv (snd (handle s r))"
proof (cases r)
  case (Create now data)
  assume "store_inv s"
  then show ?thesis
    unfolding Create
    by (auto simp: store_inv_def create_task_def internal_error_def Let_def list_all_iff
        split: json.splits option.splits)
next
  case (Update i data)
  assume "store_inv s"
  then show ?thesis
    unfolding Update
    by (auto simp: update_task_def internal_error_def mutate_first_ids task_id_apply_update
        intro!: store_inv_same_ids split: json.splits option.splits)
next
  case (Delete i)
  assume "store_inv s"
  then show ?thesis
    unfolding Delete
    by (auto simp: store_inv_def delete_task_def distinct_map_filter list_all_iff
        split: option.splits)
next
  case (Toggle i)
  assume "store_inv s"
  then show ?thesis
    unfolding Toggle
    by (auto simp: toggle_task_def mutate_first_ids task_id_toggle
        intro!: store_inv_same_ids split: option.splits)
qed simp_all

lemma store_inv_run: "store_inv s \<Longrightarrow> store_inv (run s rs)"
  by (induction rs arbitrary: s) (simp_all add: store_inv_handle)

lemma reachable_store_inv: "reachable s \<Longrightarrow> store_inv s"
  by (induction rule: reachable.induct) (simp_all add: store_inv_init store_inv_handle)

lemma reachable_run: "reachable s \<Longrightarrow> reachable (run s rs)"
  by (induction rs arbitrary: s) (simp_all add: reachable.step)

text \<open>An id below the counter that no task holds is held by no task later on.\<close>

lemma absent_stays_absent:
  assumes "find_task (tasks s) i = None" and "i < task_counter s"
  shows "find_task (tasks (snd (handle s r))) i = None \<and> i < task_counter (snd (handle s r))"
proof (cases r)
  case (Create now data)
  with assms show ?thesis
    by (auto simp: create_task_def internal_error_def Let_def find_task_None
        split: json.splits option.splits)
next
  case (Update j data)
  with assms show ?thesis
    by (auto simp: update_task_def internal_error_def find_task_None mutate_first_ids
        task_id_apply_update simp flip: set_map split: json.splits option.splits)
next
  case (Delete j)
  with assms show ?thesis
    by (auto simp: delete_task_def find_task_None split: option.splits)
next
  case (Toggle j)
  with assms show ?thesis
    by (auto simp: toggle_task_def find_task_None mutate_first_ids task_id_toggle
        simp flip: set_map split: option.splits)
qed (use assms in simp_all)

lemma absent_after_run:
  assumes "find_task (tasks s) i = None" and "i < task_counter s"
  shows "find_task (tasks (run s rs)) i = None"
  using assms by (induction rs arbitrary: s) (simp_all add: absent_stays_absent)

text \<open>A request either creates nothing and keeps the counter, or hands out the counter.\<close>

lemma handle_counter:
  "created_id (fst (handle s r)) = [] \<and> task_counter (snd (handle s r)) = task_counter s
   \<or> created_id (fst (handle s r)) = [task_counter s]
       \<and> task_counter (snd (handle s r)) = task_counter s + 1"
  by (cases r)
     (auto simp: health_check_def get_tasks_def get_task_def create_task_def
        update_task_def delete_task_def toggle_task_def internal_error_def Let_def
        split: option.splits json.splits)

lemma created_ids_increasing:
  "sorted_wrt (<) (created_ids s rs) \<and> (\<forall>j\<in>set (created_ids s rs). task_counter s \<le> j)"
proof (induction rs arbitrary: s)
  case Nil
  show ?case by simp
next
  case (Cons r rs)
  from Cons.IH[of "snd (handle s r)"] handle_counter[of s r]
  show ?case by (auto simp: sorted_wrt_append)
qed

section \<open>Ids are handed out once\<close>

text \<open>
  Claim C1. Whatever requests the service handles after it starts, the ids it has ever
  assigned (those of the three sample tasks, then those returned by create with status
  201, in the order of the requests) form a strictly increasing sequence: each new id is
  greater than every id assigned before it, so no id occurs twice, deleted or not. The
  ids of the tasks in the collection are pairwise different after every run.
\<close>

theorem created_ids_fresh:
  "sorted_wrt (<) (map task_id (tasks init_state) @ created_ids init_state rs)
   \<and> distinct (map task_id (tasks init_state) @ created_ids init_state rs)
   \<and> distinct (map task_id (tasks (run init_state rs)))"
proof -
  have inc: "sorted_wrt (<) (created_ids init_state rs)"
    and ge: "\<forall>j\<in>set (created_ids init_state rs). 4 \<le> j"
    using created_ids_increasing[of init_state rs] by (simp_all add: init_state_def)
  have seeds: "map task_id (tasks init_state) = [1, 2, 3]"
    by (simp add: init_state_def)
  have 1: "sorted_wrt (<) (map task_id (tasks init_state) @ created_ids init_state rs)"
    unfolding seeds using inc ge by (auto simp: sorted_wrt_append)
  then have 2: "distinct (map task_id (tasks init_state) @ created_ids init_state rs)"
    by (simp only: strict_sorted_iff)
  have 3: "distinct (map task_id (tasks (run init_state rs)))"
    using store_inv_run[OF store_inv_init, of rs] by (simp add: store_inv_def)
  from 1 2 3 show ?thesis by blast
qed

text \<open>
  A run that creates a task, deletes it and creates another: the second task gets 5, not
  the 4 that has become free.
\<close>

theorem created_ids_fresh_witness:
  "created_ids init_state
     [Create ''2024-01-02T09:00:00'' (JObj [(''title'', JStr ''a'')]), Delete 4,
      Create ''2024-01-02T09:05:00'' (JObj [(''title'', JStr ''b'')])] = [4, 5]
   \<and> sorted_wrt (<) (map task_id (tasks init_state) @ [4, 5])
   \<and> distinct (map task_id (tasks (run init_state
        [Create ''2024-01-02T09:00:00'' (JObj [(''title'', JStr ''a'')]), Delete 4,
         Create ''2024-01-02T09:05:00'' (JObj [(''title'', JStr ''b'')])])))"
proof -
  have ids: "created_ids init_state
     [Create ''2024-01-02T09:00:00'' (JObj [(''title'', JStr ''a'')]), Delete 4,
      Create ''2024-01-02T09:05:00'' (JObj [(''title'', JStr ''b'')])] = [4, 5]"
    by (simp add: create_task_def delete_task_def find_task_def init_state_def Let_def)
  show ?thesis
    using created_ids_fresh
      [of "[Create ''2024-01-02T09:00:00'' (JObj [(''title'', JStr ''a'')]), Delete 4,
            Create ''2024-01-02T09:05:00'' (JObj [(''title'', JStr ''b'')])]"]
    unfolding ids by (simp only: ids simp_thms)
qed

section \<open>Create\<close>

text \<open>
  Claim C2. Create answers 400 with \<^verbatim>\<open>{"error": "Title is required"}\<close> and changes
  nothing when there is no payload (\<^verbatim>\<open>None\<close>) or the payload has no key \<^verbatim>\<open>title\<close>.
  When the payload has the key, create answers 201 with the new task: its id is the
  counter, its title the value given, its description and completed flag the values given
  or else the empty string and false, its timestamp the current time; the task is appended
  at the end of the collection and the counter goes up by one.
\<close>

theorem create_task_spec:
  "create_task s now JNull = ((400, Error ''Title is required''), s)
   \<and> (map_of kvs ''title'' = None \<longrightarrow>
        create_task s now (JObj kvs) = ((400, Error ''Title is required''), s))
   \<and> (map_of kvs ''title'' = Some ti \<longrightarrow>
        create_task s now (JObj kvs) =
          ((201, Task \<lparr>task_id = task_counter s, title = ti,
                       description = (case map_of kvs ''description'' of
                                        None \<Rightarrow> JStr '''' | Some d \<Rightarrow> d),
                       completed = (case map_of kvs ''completed'' of
                                        None \<Rightarrow> JBool False | Some c \<Rightarrow> c),
                       created_at = now\<rparr>),
           s\<lparr>tasks := tasks s @
                 [\<lparr>task_id = task_counter s, title = ti,
                   description = (case map_of kvs ''description'' of
                                    None \<Rightarrow> JStr '''' | Some d \<Rightarrow> d),
                   completed = (case map_of kvs ''completed'' of
                                    None \<Rightarrow> JBool False | Some c \<Rightarrow> c),
                   created_at = now\<rparr>],
             task_counter := task_counter s + 1\<rparr>))"
proof (intro conjI impI)
  show "create_task s now JNull = ((400, Error ''Title is required''), s)"
    by (simp add: create_task_def)
next
  assume "map_of kvs ''title'' = None"
  then show "create_task s now (JObj kvs) = ((400, Error ''Title is required''), s)"
    by (simp add: create_task_def)
next
  assume h: "map_of kvs ''title'' = Some ti"
  then have "kvs \<noteq> []" by auto
  with h show "create_task s now (JObj kvs) =
          ((201, Task \<lparr>task_id = task_counter s, title = ti,
                       description = (case map_of kvs ''description'' of
                                        None \<Rightarrow> JStr '''' | Some d \<Rightarrow> d),
                       completed = (case map_of kvs ''completed'' of
                                        None \<Rightarrow> JBool False | Some c \<Rightarrow> c),
                       created_at = now\<rparr>),
           s\<lparr>tasks := tasks s @
                 [\<lparr>task_id = task_counter s, title = ti,
                   description = (case map_of kvs ''description'' of
                                    None \<Rightarrow> JStr '''' | Some d \<Rightarrow> d),
                   completed = (case map_of kvs ''completed'' of
                                    None \<Rightarrow> JBool False | Some c \<Rightarrow> c),
                   created_at = now\<rparr>],
             task_counter := task_counter s + 1\<rparr>)"
    by (simp add: create_task_def dict_get_def Let_def)
qed

text \<open>The two bodies of the tests: one without a title, one with title and description.\<close>

theorem create_task_spec_witness:
  "map_of [(''description'', JStr ''This task has no title'')] ''title'' = None
   \<and> create_task init_state ''2024-01-02T09:00:00''
        (JObj [(''description'', JStr ''This task has no title'')])
       = ((400, Error ''Title is required''), init_state)
   \<and> map_of [(''title'', JStr ''Test Task''), (''description'', JStr ''This is a test task'')]
        ''title'' = Some (JStr ''Test Task'')
   \<and> fst (create_task init_state ''2024-01-02T09:00:00''
        (JObj [(''title'', JStr ''Test Task''), (''description'', JStr ''This is a test task'')]))
       = (201, Task \<lparr>task_id = 4, title = JStr ''Test Task'',
                     description = JStr ''This is a test task'', completed = JBool False,
                     created_at = ''2024-01-02T09:00:00''\<rparr>)"
proof -
  have a: "map_of [(''description'', JStr ''This task has no title'')] ''title'' = None"
    by simp
  have b: "map_of [(''title'', JStr ''Test Task''),
                   (''description'', JStr ''This is a test task'')] ''title''
             = Some (JStr ''Test Task'')"
    by simp
  have c: "task_counter init_state = 4"
    by (simp add: init_state_def)
  from a create_task_spec
    [of init_state "''2024-01-02T09:00:00''"
        "[(''description'', JStr ''This task has no title'')]"]
  have 1: "create_task init_state ''2024-01-02T09:00:00''
        (JObj [(''description'', JStr ''This task has no title'')])
       = ((400, Error ''Title is required''), init_state)"
    by blast
  from b create_task_spec
    [of init_state "''2024-01-02T09:00:00''"
        "[(''title'', JStr ''Test Task''), (''description'', JStr ''This is a test task'')]"
        "JStr ''Test Task''"]
  have 2: "fst (create_task init_state ''2024-01-02T09:00:00''
        (JObj [(''title'', JStr ''Test Task''), (''description'', JStr ''This is a test task'')]))
       = (201, Task \<lparr>task_id = 4, title = JStr ''Test Task'',
                     description = JStr ''This is a test task'', completed = JBool False,
                     created_at = ''2024-01-02T09:00:00''\<rparr>)"
    by (simp add: c)
  from a 1 b 2 show ?thesis by blast
qed

text \<open>
  Claim C6. In every state the service can reach, creating a task from a payload that
  has a title and then getting the id that create returned answers 200 with the very
  record create returned, so with the same title, description and completed flag.
\<close>

theorem create_then_get:
  assumes "reachable s" and "map_of kvs ''title'' = Some ti"
  shows "\<exists>t. fst (create_task s now (JObj kvs)) = (201, Task t)
    \<and> get_task (snd (create_task s now (JObj kvs))) (task_id t) = (200, Task t)"
proof -
  from assms(2) have ne: "kvs \<noteq> []" by auto
  define t where "t = \<lparr>task_id = task_counter s, title = ti,
                  description = dict_get kvs ''description'' (JStr ''''),
                  completed = dict_get kvs ''completed'' (JBool False),
                  created_at = now\<rparr>"
  have c: "create_task s now (JObj kvs) =
      ((201, Task t), s\<lparr>tasks := tasks s @ [t], task_counter := task_counter s + 1\<rparr>)"
    using assms(2) ne by (simp add: create_task_def t_def Let_def)
  from assms(1) have "list_all (\<lambda>u. task_id u < task_counter s) (tasks s)"
    by (simp add: reachable_store_inv[unfolded store_inv_def])
  then have "find_task (tasks s) (task_counter s) = None"
    by (rule find_task_fresh)
  then have "find_task (tasks s @ [t]) (task_id t) = Some t"
    by (simp add: find_task_append t_def) (simp add: find_task_def)
  then have "get_task (snd (create_task s now (JObj kvs))) (task_id t) = (200, Task t)"
    by (simp add: c get_task_def)
  with c show ?thesis by simp
qed

theorem create_then_get_witness:
  "reachable init_state
   \<and> map_of [(''title'', JStr ''Single Task Test'')] ''title'' = Some (JStr ''Single Task Test'')
   \<and> (\<exists>t. fst (create_task init_state ''2024-01-02T09:00:00''
                 (JObj [(''title'', JStr ''Single Task Test'')])) = (201, Task t)
        \<and> get_task (snd (create_task init_state ''2024-01-02T09:00:00''
                 (JObj [(''title'', JStr ''Single Task Test'')]))) (task_id t)
            = (200, Task t))"
proof -
  have a: "reachable init_state"
    by (rule reachable.start)
  have b: "map_of [(''title'', JStr ''Single Task Test'')] ''title''
             = Some (JStr ''Single Task Test'')"
    by simp
  from a b create_then_get [OF a b, of "''2024-01-02T09:00:00''"]
  show ?thesis by blast
qed

section \<open>Update\<close>

text \<open>
  Claim C3. When the id is that of a task \<open>t\<close> of the collection and the payload is a
  dict with at least one key, update answers 200 with the record \<open>t'\<close> that has the id
  and the timestamp of \<open>t\<close> and, for each of title, description and completed, the
  payload's value if the payload has the key and the value of \<open>t\<close> otherwise. The new
  collection is the old one with \<open>t'\<close> at the position of \<open>t\<close>: every other task, the
  order and the counter stay as they were.
\<close>

theorem update_task_frame:
  assumes "find_task (tasks s) i = Some t" and "kvs \<noteq> []"
    and "t' = \<lparr>task_id = task_id t,
               title = (case map_of kvs ''title'' of None \<Rightarrow> title t | Some v \<Rightarrow> v),
               description =
                 (case map_of kvs ''description'' of None \<Rightarrow> description t | Some v \<Rightarrow> v),
               completed =
                 (case map_of kvs ''completed'' of None \<Rightarrow> completed t | Some v \<Rightarrow> v),
               created_at = created_at t\<rparr>"
  shows "\<exists>k<length (tasks s). tasks s ! k = t
    \<and> update_task s i (JObj kvs) = ((200, Task t'), s\<lparr>tasks := (tasks s)[k := t']\<rparr>)"
proof -
  have t': "apply_update kvs t = t'"
    unfolding assms(3) by (simp add: apply_update_def dict_get_def)
  from mutate_first_list_update[OF assms(1), of "apply_update kvs"]
  obtain k where k: "k < length (tasks s)" "tasks s ! k = t"
    "mutate_first i (apply_update kvs) (tasks s) = (tasks s)[k := t']"
    unfolding t' by blast
  have "update_task s i (JObj kvs) = ((200, Task t'), s\<lparr>tasks := (tasks s)[k := t']\<rparr>)"
    using assms(1,2) k(3) by (simp add: update_task_def t')
  with k(1,2) show ?thesis by blast
qed

text \<open>Updating only \<^verbatim>\<open>completed\<close> of the second sample task keeps its title and description.\<close>

theorem update_task_frame_witness:
  "find_task (tasks init_state) 2 =
     Some \<lparr>task_id = 2, title = JStr ''Learn React'',
           description = JStr ''Create a frontend with React'',
           completed = JBool False, created_at = ''2024-01-01T11:00:00''\<rparr>
   \<and> [(''completed'', JBool True)] \<noteq> []
   \<and> (\<exists>k<length (tasks init_state).
        tasks init_state ! k =
          \<lparr>task_id = 2, title = JStr ''Learn React'',
           description = JStr ''Create a frontend with React'',
           completed = JBool False, created_at = ''2024-01-01T11:00:00''\<rparr>
        \<and> update_task init_state 2 (JObj [(''completed'', JBool True)]) =
            ((200, Task \<lparr>task_id = 2, title = JStr ''Learn React'',
                description = JStr ''Create a frontend with React'',
                completed = JBool True, created_at = ''2024-01-01T11:00:00''\<rparr>),
             init_state\<lparr>tasks := (tasks init_state)
               [k := \<lparr>task_id = 2, title = JStr ''Learn React'',
                description = JStr ''Create a frontend with React'',
                completed = JBool True, created_at = ''2024-01-01T11:00:00''\<rparr>]\<rparr>))"
proof -
  have a: "find_task (tasks init_state) 2 =
     Some \<lparr>task_id = 2, title = JStr ''Learn React'',
           description = JStr ''Create a frontend with React'',
           completed = JBool False, created_at = ''2024-01-01T11:00:00''\<rparr>"
    by (simp add: find_task_def init_state_def)
  have b: "[(''completed'', JBool True)] \<noteq> []"
    by simp
  have c: "\<lparr>task_id = 2, title = JStr ''Learn React'',
                description = JStr ''Create a frontend with React'',
                completed = JBool True, created_at = ''2024-01-01T11:00:00''\<rparr>
     = \<lparr>task_id = task_id \<lparr>task_id = 2, title = JStr ''Learn React'',
           description = JStr ''Create a frontend with React'',
           completed = JBool False, created_at = ''2024-01-01T11:00:00''\<rparr>,
        title = (case map_of [(''completed'', JBool True)] ''title'' of
                   None \<Rightarrow> title \<lparr>task_id = 2, title = JStr ''Learn React'',
                     description = JStr ''Create a frontend with React'',
                     completed = JBool False, created_at = ''2024-01-01T11:00:00''\<rparr>
                 | Some v \<Rightarrow> v),
        description = (case map_of [(''completed'', JBool True)] ''description'' of
                   None \<Rightarrow> description \<lparr>task_id = 2, title = JStr ''Learn React'',
                     description = JStr ''Create a frontend with React'',
                     completed = JBool False, created_at = ''2024-01-01T11:00:00''\<rparr>
                 | Some v \<Rightarrow> v),
        completed = (case map_of [(''completed'', JBool True)] ''completed'' of
                   None \<Rightarrow> completed \<lparr>task_id = 2, title = JStr ''Learn React'',
                     description = JStr ''Create a frontend with React'',
                     completed = JBool False, created_at = ''2024-01-01T11:00:00''\<rparr>
                 | Some v \<Rightarrow> v),
        created_at = created_at \<lparr>task_id = 2, title = JStr ''Learn React'',
           description = JStr ''Create a frontend with React'',
           completed = JBool False, created_at = ''2024-01-01T11:00:00''\<rparr>\<rparr>"
    by simp
  from a b update_task_frame [OF a b c]
  show ?thesis by blast
qed

text \<open>
  Claim C10. For the id of a task of the collection, update with the empty dict
  \<^verbatim>\<open>{}\<close> as its body answers 400 with \<^verbatim>\<open>{"error": "No data provided"}\<close> and leaves the
  task, the collection and the counter as they were.
\<close>

theorem update_empty_object_400:
  assumes "find_task (tasks s) i = Some t"
  shows "update_task s i (JObj []) = ((400, Error ''No data provided''), s)"
  using assms by (simp add: update_task_def)

theorem update_empty_object_400_witness:
  "find_task (tasks init_state) 1 =
     Some \<lparr>task_id = 1, title = JStr ''Learn Flask'',
           description = JStr ''Build a REST API with Flask'',
           completed = JBool False, created_at = ''2024-01-01T10:00:00''\<rparr>
   \<and> update_task init_state 1 (JObj []) = ((400, Error ''No data provided''), init_state)"
proof -
  have h: "find_task (tasks init_state) 1 =
     Some \<lparr>task_id = 1, title = JStr ''Learn Flask'',
           description = JStr ''Build a REST API with Flask'',
           completed = JBool False, created_at = ''2024-01-01T10:00:00''\<rparr>"
    by (simp add: find_task_def init_state_def)
  from h update_empty_object_400 [OF h] show ?thesis by blast
qed

section \<open>Delete\<close>

text \<open>
  Claim C7. In every state the service can reach, deleting the id of a task \<open>t\<close> of the
  collection answers 200 with the confirmation message and leaves the collection without
  \<open>t\<close>, every other task kept in its place: the collection is shorter by exactly one.
  From then on the id is gone for good: after any further requests, get on it answers
  404.
\<close>

theorem delete_task_removes:
  assumes "reachable s" and "find_task (tasks s) i = Some t"
  shows "delete_task s i =
           ((200, Message ''Task deleted successfully''), s\<lparr>tasks := remove1 t (tasks s)\<rparr>)
    \<and> length (tasks (snd (delete_task s i))) + 1 = length (tasks s)
    \<and> get_task (run (snd (delete_task s i)) rs) i = (404, Error ''Task not found'')"
proof -
  from assms(1) have inv: "store_inv s" by (rule reachable_store_inv)
  then have d: "distinct (map task_id (tasks s))"
    and b: "list_all (\<lambda>t. task_id t < task_counter s) (tasks s)"
    by (simp_all add: store_inv_def)
  from assms(2) have t: "t \<in> set (tasks s)" "task_id t = i"
    by (simp_all add: find_task_Some_id)
  have 1: "delete_task s i =
      ((200, Message ''Task deleted successfully''), s\<lparr>tasks := remove1 t (tasks s)\<rparr>)"
    using assms(2) by (simp add: delete_task_def filter_other_ids[OF d assms(2)])
  have 2: "length (tasks (snd (delete_task s i))) + 1 = length (tasks s)"
    using t(1) length_pos_if_in_set[OF t(1)] by (simp add: 1 length_remove1)
  have "i \<notin> task_id ` set (filter (\<lambda>u. task_id u \<noteq> i) (tasks s))" by auto
  then have gone: "find_task (tasks (snd (delete_task s i))) i = None"
    using assms(2) by (simp add: delete_task_def find_task_None)
  from b t have "i < task_counter s" by (auto simp: list_all_iff)
  then have "i < task_counter (snd (delete_task s i))"
    using assms(2) by (simp add: delete_task_def)
  with gone have "find_task (tasks (run (snd (delete_task s i)) rs)) i = None"
    by (rule absent_after_run)
  then have 3: "get_task (run (snd (delete_task s i)) rs) i = (404, Error ''Task not found'')"
    by (simp add: get_task_def)
  from 1 2 3 show ?thesis by blast
qed

text \<open>Deleting the second sample task; a task created afterwards does not bring id 2 back.\<close>

theorem delete_task_removes_witness:
  "reachable init_state
   \<and> find_task (tasks init_state) 2 =
       Some \<lparr>task_id = 2, title = JStr ''Learn React'',
             description = JStr ''Create a frontend with React'',
             completed = JBool False, created_at = ''2024-01-01T11:00:00''\<rparr>
   \<and> map task_id (tasks (snd (delete_task init_state 2))) = [1, 3]
   \<and> length (tasks (snd (delete_task init_state 2))) + 1 = length (tasks init_state)
   \<and> get_task (run (snd (delete_task init_state 2))
        [Create ''2024-01-02T09:00:00'' (JObj [(''title'', JStr ''Task to Delete'')])]) 2
       = (404, Error ''Task not found'')"
proof -
  have a: "reachable init_state"
    by (rule reachable.start)
  have b: "find_task (tasks init_state) 2 =
       Some \<lparr>task_id = 2, title = JStr ''Learn React'',
             description = JStr ''Create a frontend with React'',
             completed = JBool False, created_at = ''2024-01-01T11:00:00''\<rparr>"
    by (simp add: find_task_def init_state_def)
  note removes = delete_task_removes [OF a b,
      of "[Create ''2024-01-02T09:00:00'' (JObj [(''title'', JStr ''Task to Delete'')])]"]
  from removes have c: "map task_id (tasks (snd (delete_task init_state 2))) = [1, 3]"
    by (simp add: init_state_def)
  from a b c removes show ?thesis by blast
qed

section \<open>Toggle\<close>

text \<open>
  Claim C5, amended. The completed field holds whatever JSON value the payload of create
  or update gave, and \<^verbatim>\<open>not\<close> yields a bool. For the id of a task \<open>t\<close> of the
  collection, toggle answers 200 with \<open>t\<close> whose completed field is the negation of the
  truth value of the old one, and that record is in the collection; a second toggle
  answers with completed set to the truth value of the original. When the original
  completed field is a bool, the second toggle returns \<open>t\<close> itself and the store is
  again the one before the two toggles.
\<close>

theorem toggle_task_flips:
  assumes "find_task (tasks s) i = Some t"
  shows "toggle_task s i =
           ((200, Task (t\<lparr>completed := JBool (\<not> truthy (completed t))\<rparr>)),
            s\<lparr>tasks := mutate_first i toggle (tasks s)\<rparr>)
    \<and> find_task (tasks (snd (toggle_task s i))) i
         = Some (t\<lparr>completed := JBool (\<not> truthy (completed t))\<rparr>)
    \<and> fst (toggle_task (snd (toggle_task s i)) i)
         = (200, Task (t\<lparr>completed := JBool (truthy (completed t))\<rparr>))
    \<and> (completed t = JBool b \<longrightarrow>
         toggle_task (snd (toggle_task s i)) i = ((200, Task t), s))"
proof -
  let ?s1 = "s\<lparr>tasks := mutate_first i toggle (tasks s)\<rparr>"
  have 1: "toggle_task s i = ((200, Task (toggle t)), ?s1)"
    using assms by (simp add: toggle_task_def)
  have f1: "find_task (tasks ?s1) i = Some (toggle t)"
    using assms by (simp add: find_task_mutate_first task_id_toggle)
  have 2: "toggle_task ?s1 i =
      ((200, Task (toggle (toggle t))), ?s1\<lparr>tasks := mutate_first i toggle (tasks ?s1)\<rparr>)"
    using f1 by (simp add: toggle_task_def)
  have 3: "?s1\<lparr>tasks := mutate_first i toggle (tasks ?s1)\<rparr> = s"
    if "completed t = JBool b"
  proof -
    from that have "toggle (toggle t) = t" by (simp add: toggle_def)
    with assms have "mutate_first i (\<lambda>u. toggle (toggle u)) (tasks s) = tasks s"
      by (rule mutate_first_fixed)
    then show ?thesis by (simp add: mutate_first_twice task_id_toggle)
  qed
  have 4: "toggle_task ?s1 i = ((200, Task t), s)" if "completed t = JBool b"
    using that 2 3[OF that] by (simp add: toggle_def)
  have a: "toggle t = t\<lparr>completed := JBool (\<not> truthy (completed t))\<rparr>"
    by (simp add: toggle_def)
  have s1: "snd (toggle_task s i) = ?s1"
    by (simp add: 1)
  show ?thesis
  proof (intro conjI impI)
    show "toggle_task s i =
           ((200, Task (t\<lparr>completed := JBool (\<not> truthy (completed t))\<rparr>)), ?s1)"
      using 1 a by simp
    show "find_task (tasks (snd (toggle_task s i))) i
         = Some (t\<lparr>completed := JBool (\<not> truthy (completed t))\<rparr>)"
      using f1 a s1 by simp
    show "fst (toggle_task (snd (toggle_task s i)) i)
         = (200, Task (t\<lparr>completed := JBool (truthy (completed t))\<rparr>))"
      unfolding s1 2 by (simp add: toggle_toggle)
    show "toggle_task (snd (toggle_task s i)) i = ((200, Task t), s)"
      if "completed t = JBool b"
      unfolding s1 using 4[OF that] .
  qed
qed

text \<open>The third sample task, completed, is toggled to false and back to true.\<close>

theorem toggle_task_flips_witness:
  "find_task (tasks init_state) 3 =
     Some \<lparr>task_id = 3, title = JStr ''Setup CI/CD'',
           description = JStr ''Configure GitHub Actions'',
           completed = JBool True, created_at = ''2024-01-01T12:00:00''\<rparr>
   \<and> fst (toggle_task init_state 3) =
       (200, Task \<lparr>task_id = 3, title = JStr ''Setup CI/CD'',
           description = JStr ''Configure GitHub Actions'',
           completed = JBool False, created_at = ''2024-01-01T12:00:00''\<rparr>)
   \<and> toggle_task (snd (toggle_task init_state 3)) 3 =
       ((200, Task \<lparr>task_id = 3, title = JStr ''Setup CI/CD'',
           description = JStr ''Configure GitHub Actions'',
           completed = JBool True, created_at = ''2024-01-01T12:00:00''\<rparr>), init_state)"
proof -
  have h: "find_task (tasks init_state) 3 =
     Some \<lparr>task_id = 3, title = JStr ''Setup CI/CD'',
           description = JStr ''Configure GitHub Actions'',
           completed = JBool True, created_at = ''2024-01-01T12:00:00''\<rparr>"
    by (simp add: find_task_def init_state_def)
  note flips = toggle_task_flips [OF h, of True]
  from flips have a: "fst (toggle_task init_state 3) =
       (200, Task \<lparr>task_id = 3, title = JStr ''Setup CI/CD'',
           description = JStr ''Configure GitHub Actions'',
           completed = JBool False, created_at = ''2024-01-01T12:00:00''\<rparr>)"
    by simp
  from flips have b: "toggle_task (snd (toggle_task init_state 3)) 3 =
       ((200, Task \<lparr>task_id = 3, title = JStr ''Setup CI/CD'',
           description = JStr ''Configure GitHub Actions'',
           completed = JBool True, created_at = ''2024-01-01T12:00:00''\<rparr>), init_state)"
    by (elim conjE) (simp del: snd_conv fst_conv)
  from h a b show ?thesis by blast
qed

text \<open>
  Claim C5 as stated fails: the fourth task of \<open>posted_yes\<close> was created with
  \<^verbatim>\<open>"completed": "yes"\<close>, and two toggles leave it with \<^verbatim>\<open>true\<close>, not \<^verbatim>\<open>"yes"\<close>.
\<close>

theorem toggle_twice_counterexample:
  "reachable posted_yes
   \<and> map_option completed (find_task (tasks posted_yes) 4) = Some (JStr ''yes'')
   \<and> map_option completed
        (find_task (tasks (snd (toggle_task (snd (toggle_task posted_yes 4)) 4))) 4)
       = Some (JBool True)
   \<and> map_option completed
        (find_task (tasks (snd (toggle_task (snd (toggle_task posted_yes 4)) 4))) 4)
       \<noteq> map_option completed (find_task (tasks posted_yes) 4)"
proof -
  have "reachable (snd (handle init_state (Create ''2024-01-02T09:00:00''
          (JObj [(''title'', JStr ''Call''), (''completed'', JStr ''yes'')]))))"
    by (rule reachable.step [OF reachable.start])
  then have r: "reachable posted_yes"
    by (simp add: posted_yes_def)
  have a: "map_option completed (find_task (tasks posted_yes) 4) = Some (JStr ''yes'')"
    by (simp add: posted_yes_def create_task_def init_state_def dict_get_def Let_def
        find_task_def)
  have b: "map_option completed
        (find_task (tasks (snd (toggle_task (snd (toggle_task posted_yes 4)) 4))) 4)
       = Some (JBool True)"
    by (simp add: posted_yes_def create_task_def init_state_def dict_get_def Let_def
        toggle_task_def find_task_def toggle_def)
  have c: "map_option completed
        (find_task (tasks (snd (toggle_task (snd (toggle_task posted_yes 4)) 4))) 4)
       \<noteq> map_option completed (find_task (tasks posted_yes) 4)"
    unfolding a b by simp
  from r a b c show ?thesis by blast
qed

section \<open>Titles\<close>

text \<open>
  Claim C8, amended. Create and update test the payload for the key \<^verbatim>\<open>title\<close>, never
  the value under it. When the payload has the key, create answers 201 and appends a task
  whose title is the value given, and update of an existing task answers 200 and leaves
  the task with the value given as its title: whatever that value is, the empty string
  included.
\<close>

theorem title_stored_as_given:
  "(map_of kvs ''title'' = Some v \<longrightarrow>
      (\<exists>t. fst (create_task s now (JObj kvs)) = (201, Task t) \<and> title t = v
         \<and> tasks (snd (create_task s now (JObj kvs))) = tasks s @ [t]))
   \<and> (find_task (tasks s) i = Some u \<and> map_of kvs ''title'' = Some v \<longrightarrow>
      (\<exists>t. fst (update_task s i (JObj kvs)) = (200, Task t) \<and> title t = v
         \<and> find_task (tasks (snd (update_task s i (JObj kvs)))) i = Some t))"
proof (intro conjI impI)
  assume h: "map_of kvs ''title'' = Some v"
  then have "kvs \<noteq> []" by auto
  with h show "\<exists>t. fst (create_task s now (JObj kvs)) = (201, Task t) \<and> title t = v
         \<and> tasks (snd (create_task s now (JObj kvs))) = tasks s @ [t]"
    by (simp add: create_task_def Let_def)
next
  assume h: "find_task (tasks s) i = Some u \<and> map_of kvs ''title'' = Some v"
  then have "kvs \<noteq> []" by auto
  with h show "\<exists>t. fst (update_task s i (JObj kvs)) = (200, Task t) \<and> title t = v
         \<and> find_task (tasks (snd (update_task s i (JObj kvs)))) i = Some t"
    by (simp add: update_task_def find_task_mutate_first task_id_apply_update)
       (simp add: apply_update_def dict_get_def)
qed

theorem title_stored_as_given_witness:
  "map_of [(''title'', JStr ''Updated Title''), (''completed'', JBool True)] ''title''
     = Some (JStr ''Updated Title'')
   \<and> find_task (tasks init_state) 1 =
       Some \<lparr>task_id = 1, title = JStr ''Learn Flask'',
             description = JStr ''Build a REST API with Flask'',
             completed = JBool False, created_at = ''2024-01-01T10:00:00''\<rparr>
   \<and> (\<exists>t. fst (create_task init_state ''2024-01-02T09:00:00''
               (JObj [(''title'', JStr ''Updated Title''), (''completed'', JBool True)]))
             = (201, Task t) \<and> title t = JStr ''Updated Title'')
   \<and> (\<exists>t. fst (update_task init_state 1
               (JObj [(''title'', JStr ''Updated Title''), (''completed'', JBool True)]))
             = (200, Task t) \<and> title t = JStr ''Updated Title'')"
proof -
  have a: "map_of [(''title'', JStr ''Updated Title''), (''completed'', JBool True)] ''title''
     = Some (JStr ''Updated Title'')"
    by simp
  have b: "find_task (tasks init_state) 1 =
       Some \<lparr>task_id = 1, title = JStr ''Learn Flask'',
             description = JStr ''Build a REST API with Flask'',
             completed = JBool False, created_at = ''2024-01-01T10:00:00''\<rparr>"
    by (simp add: find_task_def init_state_def)
  from a b title_stored_as_given
    [of "[(''title'', JStr ''Updated Title''), (''completed'', JBool True)]"
        "JStr ''Updated Title''" init_state "''2024-01-02T09:00:00''" 1
        "\<lparr>task_id = 1, title = JStr ''Learn Flask'',
          description = JStr ''Build a REST API with Flask'',
          completed = JBool False, created_at = ''2024-01-01T10:00:00''\<rparr>"]
  show ?thesis by blast
qed

text \<open>
  Claim C8 as stated fails: the body \<^verbatim>\<open>{"title": ""}\<close> is accepted by create, which
  answers 201 and stores a fourth task with the empty title, and by update, which leaves
  the first sample task with the empty title.
\<close>

theorem empty_title_counterexample:
  "fst (create_task init_state ''2024-01-02T09:00:00'' (JObj [(''title'', JStr '''')]))
     = (201, Task \<lparr>task_id = 4, title = JStr '''', description = JStr '''',
                   completed = JBool False, created_at = ''2024-01-02T09:00:00''\<rparr>)
   \<and> map title (tasks (snd (create_task init_state ''2024-01-02T09:00:00''
                              (JObj [(''title'', JStr '''')]))))
     = [JStr ''Learn Flask'', JStr ''Learn React'', JStr ''Setup CI/CD'', JStr '''']
   \<and> map title (tasks (snd (update_task init_state 1 (JObj [(''title'', JStr '''')]))))
     = [JStr '''', JStr ''Learn React'', JStr ''Setup CI/CD'']"
  by (simp add: create_task_def update_task_def init_state_def dict_get_def Let_def
      find_task_def apply_update_def)

section \<open>Errors\<close>

text \<open>
  Claim C4. When no task of the collection has the id, get, update (whatever its body),
  delete and toggle each answer 404 with the body \<^verbatim>\<open>{"error": "Task not found"}\<close>.
\<close>

theorem missing_id_404:
  assumes "find_task (tasks s) i = None"
  shows "get_task s i = (404, Error ''Task not found'')
    \<and> fst (update_task s i data) = (404, Error ''Task not found'')
    \<and> fst (delete_task s i) = (404, Error ''Task not found'')
    \<and> fst (toggle_task s i) = (404, Error ''Task not found'')"
  using assms by (simp add: get_task_def update_task_def delete_task_def toggle_task_def)

theorem missing_id_404_witness:
  "find_task (tasks init_state) 99999 = None
    \<and> get_task init_state 99999 = (404, Error ''Task not found'')
    \<and> fst (update_task init_state 99999 (JObj [(''title'', JStr ''x'')]))
        = (404, Error ''Task not found'')
    \<and> fst (delete_task init_state 99999) = (404, Error ''Task not found'')
    \<and> fst (toggle_task init_state 99999) = (404, Error ''Task not found'')"
proof -
  have h: "find_task (tasks init_state) 99999 = None"
    by (simp add: find_task_def init_state_def)
  show ?thesis
    using h missing_id_404 [OF h, of "JObj [(''title'', JStr ''x'')]"] by simp
qed

text \<open>
  Claim C9. Whatever the request, when the response has status 400 or 404 the store
  after the request is the store before it: the collection and the counter are
  unchanged.
\<close>

theorem error_keeps_state:
  assumes "fst (fst (handle s r)) = 400 \<or> fst (fst (handle s r)) = 404"
  shows "snd (handle s r) = s"
  using assms
  by (cases r)
     (auto simp: health_check_def get_tasks_def get_task_def create_task_def
        update_task_def delete_task_def toggle_task_def internal_error_def Let_def
        split: option.splits if_splits json.splits)

text \<open>Each error of each handler, on the sample tasks.\<close>

theorem error_keeps_state_witness:
  "fst (fst (handle init_state (GetTask 9))) = 404
   \<and> fst (fst (handle init_state (Update 9 (JObj [(''title'', JStr ''x'')])))) = 404
   \<and> fst (fst (handle init_state (Update 1 JNull))) = 400
   \<and> fst (fst (handle init_state (Delete 9))) = 404
   \<and> fst (fst (handle init_state (Toggle 9))) = 404
   \<and> fst (fst (handle init_state
        (Create ''2024-01-02T09:00:00'' (JObj [(''description'', JStr ''d'')])))) = 400
   \<and> snd (handle init_state (GetTask 9)) = init_state
   \<and> snd (handle init_state (Update 9 (JObj [(''title'', JStr ''x'')]))) = init_state
   \<and> snd (handle init_state (Update 1 JNull)) = init_state
   \<and> snd (handle init_state (Delete 9)) = init_state
   \<and> snd (handle init_state (Toggle 9)) = init_state
   \<and> snd (handle init_state
        (Create ''2024-01-02T09:00:00'' (JObj [(''description'', JStr ''d'')]))) = init_state"
proof -
  have none: "find_task (tasks init_state) 9 = None"
    and some: "find_task (tasks init_state) 1 \<noteq> None"
    by (simp_all add: find_task_def init_state_def)
  have 1: "fst (fst (handle init_state (GetTask 9))) = 404"
    and 2: "fst (fst (handle init_state (Update 9 (JObj [(''title'', JStr ''x'')])))) = 404"
    and 4: "fst (fst (handle init_state (Delete 9))) = 404"
    and 5: "fst (fst (handle init_state (Toggle 9))) = 404"
    using none
    by (simp_all add: get_task_def update_task_def delete_task_def toggle_task_def)
  have 3: "fst (fst (handle init_state (Update 1 JNull))) = 400"
    using some by (auto simp: update_task_def)
  have 6: "fst (fst (handle init_state
        (Create ''2024-01-02T09:00:00'' (JObj [(''description'', JStr ''d'')])))) = 400"
    by (simp add: create_task_def)
  from 1 2 3 4 5 6
    error_keeps_state [of init_state "GetTask 9"]
    error_keeps_state [of init_state "Update 9 (JObj [(''title'', JStr ''x'')])"]
    error_keeps_state [of init_state "Update 1 JNull"]
    error_keeps_state [of init_state "Delete 9"]
    error_keeps_state [of init_state "Toggle 9"]
    error_keeps_state [of init_state
      "Create ''2024-01-02T09:00:00'' (JObj [(''description'', JStr ''d'')])"]
  show ?thesis by blast
qed

end
